theory Spec2Isabelle
  imports Main
begin

section \<open>The scalar type: C++ \<open>double\<close>\<close>

text \<open>
  Every scalar of the library (tensor elements, the factor of a labeled tensor, the
  \<open>alpha\<close> and \<open>beta\<close> of the kernels) is a C++ \<open>double\<close>, an IEEE 754 binary64 number.
  A finite double is a sign, a significand \<open>m < 2^53\<close> and an exponent \<open>e\<close> with value
  \<open>m * 2^e\<close>, \<open>-1074 \<le> e \<le> 971\<close>, kept normalised (\<open>2^52 \<le> m\<close>, or \<open>e = -1074\<close> for zero
  and the subnormals), so that equal numbers have equal representations. The sign is
  \<open>True\<close> for a negative number. All NaNs are one value.
\<close>

datatype double = DFinite bool nat int | DInfinity bool | DNaN

fun bit_length :: "nat \<Rightarrow> nat" where
  "bit_length n = (if n = 0 then 0 else Suc (bit_length (n div 2)))"

declare bit_length.simps [simp del]

text \<open>
  Rounding of the exact value \<open>M * 2^E\<close> to the nearest double, ties to the even
  significand (the default rounding mode); a result beyond the largest finite double is
  an infinity.
\<close>

definition round_double :: "bool \<Rightarrow> nat \<Rightarrow> int \<Rightarrow> double" where
  "round_double s M E =
     (if M = 0 then DFinite s 0 (- 1074)
      else
        let e1 = max (E + int (bit_length M) - 53) (- 1074) in
        if e1 \<le> E then
          (if 971 < e1 then DInfinity s else DFinite s (M * 2 ^ nat (E - e1)) e1)
        else
          let k = nat (e1 - E);
              q = M div 2 ^ k;
              r = M mod 2 ^ k;
              h = 2 ^ (k - 1);
              m = (if h < r \<or> (r = h \<and> odd q) then q + 1 else q);
              m2 = (if m = 2 ^ 53 then 2 ^ 52 else m);
              e2 = (if m = 2 ^ 53 then e1 + 1 else e1)
          in if 971 < e2 then DInfinity s else DFinite s m2 e2)"

text \<open>A literal such as \<open>1.0\<close> or \<open>19.0\<close>: the double nearest to an integer.\<close>

definition double_of_int :: "int \<Rightarrow> double" where
  "double_of_int i = round_double (i < 0) (nat \<bar>i\<bar>) 0"

definition is_nan :: "double \<Rightarrow> bool" where
  "is_nan x = (case x of DNaN \<Rightarrow> True | _ \<Rightarrow> False)"

definition is_finite :: "double \<Rightarrow> bool" where
  "is_finite x = (case x of DFinite s m e \<Rightarrow> True | _ \<Rightarrow> False)"

text \<open>The comparison \<open>x == 0.0\<close>: true of both zeros, false of a NaN.\<close>

definition is_zero :: "double \<Rightarrow> bool" where
  "is_zero x = (case x of DFinite s m e \<Rightarrow> m = 0 | _ \<Rightarrow> False)"

text \<open>Unary minus flips the sign.\<close>

fun dneg :: "double \<Rightarrow> double" where
  "dneg (DFinite s m e) = DFinite (\<not> s) m e"
| "dneg (DInfinity s) = DInfinity (\<not> s)"
| "dneg DNaN = DNaN"

text \<open>The product \<open>x * y\<close>: the exact product, rounded once.\<close>

fun dmul :: "double \<Rightarrow> double \<Rightarrow> double" where
  "dmul DNaN y = DNaN"
| "dmul x DNaN = DNaN"
| "dmul (DInfinity s) (DInfinity t) = DInfinity (s \<noteq> t)"
| "dmul (DInfinity s) (DFinite t m e) = (if m = 0 then DNaN else DInfinity (s \<noteq> t))"
| "dmul (DFinite s m e) (DInfinity t) = (if m = 0 then DNaN else DInfinity (s \<noteq> t))"
| "dmul (DFinite s m e) (DFinite t n f) = round_double (s \<noteq> t) (m * n) (e + f)"

text \<open>
  The sum \<open>x + y\<close>: the exact sum, rounded once. A zero operand leaves the other one as
  it is; an exact zero sum is \<open>+0\<close>, except that \<open>(-0) + (-0) = -0\<close>.
\<close>

definition signed_significand :: "bool \<Rightarrow> nat \<Rightarrow> int" where
  "signed_significand s m = (if s then - int m else int m)"

fun dadd :: "double \<Rightarrow> double \<Rightarrow> double" where
  "dadd DNaN y = DNaN"
| "dadd x DNaN = DNaN"
| "dadd (DInfinity s) (DInfinity t) = (if s = t then DInfinity s else DNaN)"
| "dadd (DInfinity s) (DFinite t m e) = DInfinity s"
| "dadd (DFinite s m e) (DInfinity t) = DInfinity t"
| "dadd (DFinite s m e) (DFinite t n f) =
     (if n = 0 then (if m = 0 then DFinite (s \<and> t) 0 (- 1074) else DFinite s m e)
      else if m = 0 then DFinite t n f
      else
        let g = min e f;
            v = signed_significand s m * 2 ^ nat (e - g)
              + signed_significand t n * 2 ^ nat (f - g)
        in if v = 0 then DFinite False 0 (- 1074) else round_double (v < 0) (nat \<bar>v\<bar>) g)"

section \<open>Tensor handles and labeled tensors (\<open>tensor.h\<close>)\<close>

datatype TensorType = kCurrent | kCore | kDisk | kDistributed | kAgnostic

type_synonym Dimension = "nat list"
type_synonym Indices = "string list"

text \<open>
  A \<open>Tensor\<close> holds one member, \<open>shared_ptr<TensorImpl> tensor_\<close>: the address of the
  storage object it shares, or nothing (the default-constructed handle).
\<close>

type_synonym addr = nat

record Tensor =
  tensor_ptr :: "addr option"

text \<open>
  \<open>LabeledTensor\<close> has the members \<open>T_\<close>, \<open>indices_\<close> and \<open>factor_\<close>, read by \<open>T()\<close>,
  \<open>indices()\<close> and \<open>factor()\<close>.
\<close>

record LabeledTensor =
  lt_T :: Tensor
  lt_indices :: Indices
  lt_factor :: double

text \<open>
  Modelled from the spec: the body of the constructor
  \<open>LabeledTensor(Tensor T, const std::vector<std::string>& indices, double factor)\<close> is
  not in the header. A labeled tensor is "a triple (Tensor T, ordered index labels L,
  scalar factor f)", which the three accessors return.
\<close>

definition LabeledTensor_ctor :: "Tensor \<Rightarrow> Indices \<Rightarrow> double \<Rightarrow> LabeledTensor" where
  "LabeledTensor_ctor t inds f = \<lparr>lt_T = t, lt_indices = inds, lt_factor = f\<rparr>"

text \<open>\<open>LabeledTensor::operator-() const\<close>, the negation.\<close>

definition LabeledTensor_uminus :: "LabeledTensor \<Rightarrow> LabeledTensor" where
  "LabeledTensor_uminus l = LabeledTensor_ctor (lt_T l) (lt_indices l) (dneg (lt_factor l))"

text \<open>\<open>operator*(double factor, const LabeledTensor& ti)\<close>.\<close>

definition double_times_LabeledTensor :: "double \<Rightarrow> LabeledTensor \<Rightarrow> LabeledTensor" where
  "double_times_LabeledTensor f ti =
     LabeledTensor_ctor (lt_T ti) (lt_indices ti) (dmul f (lt_factor ti))"

subsection \<open>Product and addition nodes\<close>

text \<open>Both classes hold one member, \<open>std::vector<LabeledTensor> tensors_\<close>.\<close>

record LabeledTensorProduct =
  prod_tensors :: "LabeledTensor list"

record LabeledTensorAddition =
  add_tensors :: "LabeledTensor list"

definition LabeledTensorProduct_ctor :: "LabeledTensor \<Rightarrow> LabeledTensor \<Rightarrow> LabeledTensorProduct" where
  "LabeledTensorProduct_ctor a b = \<lparr>prod_tensors = [] @ [a] @ [b]\<rparr>"

definition LabeledTensorProduct_size :: "LabeledTensorProduct \<Rightarrow> nat" where
  "LabeledTensorProduct_size p = length (prod_tensors p)"

definition LabeledTensorAddition_ctor :: "LabeledTensor \<Rightarrow> LabeledTensor \<Rightarrow> LabeledTensorAddition" where
  "LabeledTensorAddition_ctor a b = \<lparr>add_tensors = [] @ [a] @ [b]\<rparr>"

definition LabeledTensorAddition_size :: "LabeledTensorAddition \<Rightarrow> nat" where
  "LabeledTensorAddition_size p = length (add_tensors p)"

text \<open>
  The appending operators change the node they are called on (\<open>tensors_.push_back\<close>) and
  return \<open>*this\<close>. The first three definitions give the value of the node after the
  call.
\<close>

definition LabeledTensorProduct_times :: "LabeledTensorProduct \<Rightarrow> LabeledTensor \<Rightarrow> LabeledTensorProduct" where
  "LabeledTensorProduct_times p other = p\<lparr>prod_tensors := prod_tensors p @ [other]\<rparr>"

definition LabeledTensorAddition_plus :: "LabeledTensorAddition \<Rightarrow> LabeledTensor \<Rightarrow> LabeledTensorAddition" where
  "LabeledTensorAddition_plus a other = a\<lparr>add_tensors := add_tensors a @ [other]\<rparr>"

definition LabeledTensorAddition_minus :: "LabeledTensorAddition \<Rightarrow> LabeledTensor \<Rightarrow> LabeledTensorAddition" where
  "LabeledTensorAddition_minus a other =
     a\<lparr>add_tensors := add_tensors a @ [LabeledTensor_uminus other]\<rparr>"

text \<open>
  The same operators on objects in memory: the nodes live in a store, \<open>this\<close> is the
  address of the node the operator is called on, and the result is the new store with
  the address the returned reference \<open>*this\<close> denotes. Calling the operator through an
  address that holds no node is undefined in C++ and \<open>None\<close> here.
\<close>

type_synonym 'a objects = "addr \<rightharpoonup> 'a"

definition call_on :: "('a \<Rightarrow> 'b \<Rightarrow> 'a) \<Rightarrow> 'a objects \<Rightarrow> addr \<Rightarrow> 'b \<Rightarrow> ('a objects \<times> addr) option" where
  "call_on f s this other =
     (case s this of None \<Rightarrow> None | Some node \<Rightarrow> Some (s(this \<mapsto> f node other), this))"

definition LabeledTensorProduct_times_ref ::
    "LabeledTensorProduct objects \<Rightarrow> addr \<Rightarrow> LabeledTensor \<Rightarrow> (LabeledTensorProduct objects \<times> addr) option" where
  "LabeledTensorProduct_times_ref = call_on LabeledTensorProduct_times"

definition LabeledTensorAddition_plus_ref ::
    "LabeledTensorAddition objects \<Rightarrow> addr \<Rightarrow> LabeledTensor \<Rightarrow> (LabeledTensorAddition objects \<times> addr) option" where
  "LabeledTensorAddition_plus_ref = call_on LabeledTensorAddition_plus"

definition LabeledTensorAddition_minus_ref ::
    "LabeledTensorAddition objects \<Rightarrow> addr \<Rightarrow> LabeledTensor \<Rightarrow> (LabeledTensorAddition objects \<times> addr) option" where
  "LabeledTensorAddition_minus_ref = call_on LabeledTensorAddition_minus"

section \<open>Storage and the primitive kernels\<close>

text \<open>
  The error kinds of the library. \<open>empty_handle\<close> is not one of the documented kinds:
  it stands for the use of a handle that shares no storage, which C++ leaves undefined.
  \<open>assertion_failure\<close> is a failed \<open>assert\<close>, \<open>runtime_error\<close> a thrown
  \<open>std::runtime_error\<close> with its message.
\<close>

datatype error = shape_mismatch | label_mismatch | backend_unsupported | range_out_of_bounds
  | planning_failure | allocation_failure | empty_handle | assertion_failure
  | runtime_error string

text \<open>
  Modelled from the spec: the class \<open>TensorImpl\<close> behind a handle is only forward-declared
  in the header. A tensor has "a name (diagnostic), a backend kind, a shape (ordered
  sequence of non-negative extents whose length is the rank), and backend-owned data",
  the data being "a contiguous array of doubles in row-major order".
\<close>

record TensorImpl =
  impl_type :: TensorType
  impl_name :: string
  impl_dims :: Dimension
  impl_data :: "double list"

text \<open>The storage objects that exist; the address of an object is its position.\<close>

type_synonym storage = "TensorImpl list"

definition impl_of :: "storage \<Rightarrow> Tensor \<Rightarrow> TensorImpl option" where
  "impl_of s t =
     (case tensor_ptr t of None \<Rightarrow> None
      | Some a \<Rightarrow> if a < length s then Some (s ! a) else None)"

definition set_data :: "storage \<Rightarrow> Tensor \<Rightarrow> double list \<Rightarrow> storage" where
  "set_data s t d =
     (case tensor_ptr t of None \<Rightarrow> s
      | Some a \<Rightarrow> if a < length s then s[a := (s ! a)\<lparr>impl_data := d\<rparr>] else s)"

definition pzero :: double where
  "pzero = DFinite False 0 (- 1074)"

definition one :: double where
  "one = DFinite False (2 ^ 52) (- 52)"

text \<open>
  Modelled from the spec: the factory \<open>Tensor::build(type, name, dims)\<close> is declared
  only. "A Tensor is created by a factory taking backend kind, name, and shape; storage
  is allocated eagerly", with "total element count the product of extents". The new
  object is a fresh one, and its elements start as \<open>0.0\<close>.
\<close>

definition build :: "storage \<Rightarrow> TensorType \<Rightarrow> string \<Rightarrow> Dimension \<Rightarrow> Tensor \<times> storage" where
  "build s ty name dims =
     (\<lparr>tensor_ptr = Some (length s)\<rparr>,
      s @ [\<lparr>impl_type = ty, impl_name = name, impl_dims = dims,
            impl_data = replicate (prod_list dims) pzero\<rparr>])"

text \<open>
  Modelled from the spec: \<open>Tensor::operator==\<close> and \<open>operator!=\<close> are declared only.
  "Two Tensors are equal iff they reference the same storage object."
\<close>

definition Tensor_eq :: "Tensor \<Rightarrow> Tensor \<Rightarrow> bool" where
  "Tensor_eq a other = (tensor_ptr a = tensor_ptr other)"

definition Tensor_neq :: "Tensor \<Rightarrow> Tensor \<Rightarrow> bool" where
  "Tensor_neq a other = (tensor_ptr a \<noteq> tensor_ptr other)"

text \<open>
  Modelled from the spec: \<open>Tensor::data()\<close> is declared only. Its comment in the header
  says that the raw data vector is returned "only if the underlying tensor is of type
  kCore" and that the call throws on a \<open>kDisk\<close> tensor; the spec: "Buffer access is
  permitted only for the in-core backend; other backends signal an unsupported-operation
  error."
\<close>

definition Tensor_data :: "storage \<Rightarrow> Tensor \<Rightarrow> error + double list" where
  "Tensor_data s t =
     (case impl_of s t of None \<Rightarrow> Inl empty_handle
      | Some i \<Rightarrow> if impl_type i = kCore then Inr (impl_data i) else Inl backend_unsupported)"

text \<open>Modelled from the spec: \<open>Tensor::dims()\<close>, declared only, returns the shape.\<close>

definition Tensor_dims :: "storage \<Rightarrow> Tensor \<Rightarrow> Dimension option" where
  "Tensor_dims s t = map_option impl_dims (impl_of s t)"

text \<open>
  Modelled from the spec: \<open>Tensor::zero()\<close>, declared only, is the elementwise operation
  that sets every element to \<open>0.0\<close>.
\<close>

definition Tensor_zero :: "storage \<Rightarrow> Tensor \<Rightarrow> storage" where
  "Tensor_zero s t =
     (case impl_of s t of None \<Rightarrow> s
      | Some i \<Rightarrow> set_data s t (replicate (length (impl_data i)) pzero))"

subsection \<open>Row-major addressing\<close>

text \<open>
  All multi-indices of a shape, the right-most index running fastest, and the offset of
  element \<open>(i\<^sub>0, \<dots>, i\<^sub>r\<^sub>-\<^sub>1)\<close>, which is \<open>\<Sum>\<^sub>k i\<^sub>k * \<Prod>\<^sub>j\<^sub>>\<^sub>k n\<^sub>j\<close>.
\<close>

fun multi_indices :: "Dimension \<Rightarrow> nat list list" where
  "multi_indices [] = [[]]"
| "multi_indices (n # ns) = concat (map (\<lambda>i. map ((#) i) (multi_indices ns)) [0..<n])"

fun offset :: "Dimension \<Rightarrow> nat list \<Rightarrow> nat" where
  "offset (n # ns) (i # is) = i * prod_list ns + offset ns is"
| "offset _ _ = 0"

text \<open>Labels with the values (or the extents) they stand for.\<close>

definition label_value :: "(string \<times> nat) list \<Rightarrow> string \<Rightarrow> nat" where
  "label_value env l = (case map_of env l of None \<Rightarrow> 0 | Some v \<Rightarrow> v)"

definition extents_consistent :: "(string \<times> nat) list \<Rightarrow> bool" where
  "extents_consistent env = list_all (\<lambda>(l, n). map_of env l = Some n) env"

subsection \<open>Permute\<close>

text \<open>
  Modelled from the spec: \<open>Tensor::permute\<close> is declared only; the header documents it
  as \<open>C(Cinds) = alpha * A(Ainds) + beta * C(Cinds)\<close>. The checks are the invariants of
  the spec: the label count of each tensor is its rank, "\<open>C\<^sub>i\<close> is a permutation of \<open>A\<^sub>i\<close>
  and extents match under that permutation". A label count that differs from the rank,
  an illegal multiplicity and a non-permutation are label mismatches; disagreeing
  extents are a shape mismatch.
\<close>

definition permute_check :: "storage \<Rightarrow> Tensor \<Rightarrow> Tensor \<Rightarrow> Indices \<Rightarrow> Indices \<Rightarrow> error option" where
  "permute_check s c a Cinds Ainds =
     (case impl_of s c of None \<Rightarrow> Some empty_handle
      | Some ci \<Rightarrow>
     (case impl_of s a of None \<Rightarrow> Some empty_handle
      | Some ai \<Rightarrow>
        if length Cinds \<noteq> length (impl_dims ci) \<or> length Ainds \<noteq> length (impl_dims ai)
          then Some label_mismatch
        else if \<not> distinct Cinds \<or> \<not> distinct Ainds \<or> set Cinds \<noteq> set Ainds
          then Some label_mismatch
        else if \<not> extents_consistent (zip Cinds (impl_dims ci) @ zip Ainds (impl_dims ai))
          then Some shape_mismatch
        else None))"

text \<open>
  One element of the result, from the value \<open>x\<close> the inputs give and the element \<open>c\<close> the
  target holds. "\<open>\<beta> = 0\<close> semantically zeroes \<open>C\<close> prior to accumulation", and "kernels
  must not read \<open>C\<close> when \<open>beta == 0\<close>": then \<open>alpha * x\<close> is accumulated onto \<open>0.0\<close>.
\<close>

definition combine :: "double \<Rightarrow> double \<Rightarrow> double \<Rightarrow> double \<Rightarrow> double" where
  "combine alpha x beta c =
     (if is_zero beta then dadd (dmul alpha x) pzero else dadd (dmul alpha x) (dmul beta c))"

text \<open>
  The elements of \<open>C\<close> are visited in storage order; the element of \<open>A\<close> that belongs to
  an element of \<open>C\<close> is found through the labels.
\<close>

definition permute_data ::
    "Dimension \<Rightarrow> double list \<Rightarrow> Dimension \<Rightarrow> double list \<Rightarrow> Indices \<Rightarrow> Indices \<Rightarrow> double \<Rightarrow> double
      \<Rightarrow> double list" where
  "permute_data cdims cdata adims adata Cinds Ainds alpha beta =
     map (\<lambda>(idx, c).
            combine alpha (adata ! offset adims (map (label_value (zip Cinds idx)) Ainds)) beta c)
         (zip (multi_indices cdims) cdata)"

definition Tensor_permute ::
    "storage \<Rightarrow> Tensor \<Rightarrow> Tensor \<Rightarrow> Indices \<Rightarrow> Indices \<Rightarrow> double \<Rightarrow> double \<Rightarrow> error + storage" where
  "Tensor_permute s this a Cinds Ainds alpha beta =
     (case permute_check s this a Cinds Ainds of Some e \<Rightarrow> Inl e
      | None \<Rightarrow>
        (case (impl_of s this, impl_of s a) of
           (Some ci, Some ai) \<Rightarrow>
             Inr (set_data s this
                   (permute_data (impl_dims ci) (impl_data ci) (impl_dims ai) (impl_data ai)
                      Cinds Ainds alpha beta))
         | _ \<Rightarrow> Inl empty_handle))"

subsection \<open>Contract\<close>

text \<open>
  Modelled from the spec: \<open>Tensor::contract\<close> is declared only; the header documents it
  as \<open>C(Cinds) = alpha * A(Ainds) * B(Binds) + beta * C(Cinds)\<close>. The checks are the
  invariants of the spec: the label count of each tensor is its rank; every label of
  \<open>C\<close> appears exactly once in \<open>A\<close> and \<open>B\<close> together; no label appears in more than two
  positions of \<open>A\<close>, \<open>B\<close> and \<open>C\<close> combined; the extent of a label is the same wherever it
  appears. The labels of \<open>A\<close> and \<open>B\<close> that are not labels of \<open>C\<close> are summed over.
\<close>

definition contract_check ::
    "storage \<Rightarrow> Tensor \<Rightarrow> Tensor \<Rightarrow> Tensor \<Rightarrow> Indices \<Rightarrow> Indices \<Rightarrow> Indices \<Rightarrow> error option" where
  "contract_check s c a b Cinds Ainds Binds =
     (case impl_of s c of None \<Rightarrow> Some empty_handle
      | Some ci \<Rightarrow>
     (case impl_of s a of None \<Rightarrow> Some empty_handle
      | Some ai \<Rightarrow>
     (case impl_of s b of None \<Rightarrow> Some empty_handle
      | Some bi \<Rightarrow>
        if length Cinds \<noteq> length (impl_dims ci) \<or> length Ainds \<noteq> length (impl_dims ai)
           \<or> length Binds \<noteq> length (impl_dims bi)
          then Some label_mismatch
        else if \<not> list_all (\<lambda>l. count_list (Ainds @ Binds) l = 1) Cinds
           \<or> \<not> list_all (\<lambda>l. count_list (Cinds @ Ainds @ Binds) l \<le> 2) (Cinds @ Ainds @ Binds)
          then Some label_mismatch
        else if \<not> extents_consistent
                   (zip Cinds (impl_dims ci) @ zip Ainds (impl_dims ai) @ zip Binds (impl_dims bi))
          then Some shape_mismatch
        else None)))"

definition summed_labels :: "Indices \<Rightarrow> Indices \<Rightarrow> Indices \<Rightarrow> Indices" where
  "summed_labels Cinds Ainds Binds = remdups (filter (\<lambda>l. l \<notin> set Cinds) (Ainds @ Binds))"

definition contract_element ::
    "Dimension \<Rightarrow> double list \<Rightarrow> Dimension \<Rightarrow> double list \<Rightarrow> Indices \<Rightarrow> Indices \<Rightarrow> Indices
      \<Rightarrow> nat list \<Rightarrow> double" where
  "contract_element adims adata bdims bdata Cinds Ainds Binds idx =
     (let sl = summed_labels Cinds Ainds Binds;
          ext = zip Ainds adims @ zip Binds bdims
      in foldl dadd pzero
           (map (\<lambda>sidx.
                   let env = zip Cinds idx @ zip sl sidx
                   in dmul (adata ! offset adims (map (label_value env) Ainds))
                           (bdata ! offset bdims (map (label_value env) Binds)))
                (multi_indices (map (label_value ext) sl))))"

definition contract_data ::
    "Dimension \<Rightarrow> double list \<Rightarrow> Dimension \<Rightarrow> double list \<Rightarrow> Dimension \<Rightarrow> double list
      \<Rightarrow> Indices \<Rightarrow> Indices \<Rightarrow> Indices \<Rightarrow> double \<Rightarrow> double \<Rightarrow> double list" where
  "contract_data cdims cdata adims adata bdims bdata Cinds Ainds Binds alpha beta =
     map (\<lambda>(idx, c).
            combine alpha (contract_element adims adata bdims bdata Cinds Ainds Binds idx) beta c)
         (zip (multi_indices cdims) cdata)"

definition Tensor_contract ::
    "storage \<Rightarrow> Tensor \<Rightarrow> Tensor \<Rightarrow> Tensor \<Rightarrow> Indices \<Rightarrow> Indices \<Rightarrow> Indices \<Rightarrow> double \<Rightarrow> double
      \<Rightarrow> error + storage" where
  "Tensor_contract s this a b Cinds Ainds Binds alpha beta =
     (case contract_check s this a b Cinds Ainds Binds of Some e \<Rightarrow> Inl e
      | None \<Rightarrow>
        (case (impl_of s this, impl_of s a, impl_of s b) of
           (Some ci, Some ai, Some bi) \<Rightarrow>
             Inr (set_data s this
                   (contract_data (impl_dims ci) (impl_data ci) (impl_dims ai) (impl_data ai)
                      (impl_dims bi) (impl_data bi) Cinds Ainds Binds alpha beta))
         | _ \<Rightarrow> Inl empty_handle))"

section \<open>Lowering of assignments\<close>

text \<open>
  Modelled from the spec: the assignment operators of \<open>LabeledTensor\<close> (\<open>=\<close>, \<open>+=\<close>, \<open>-=\<close>
  from a labeled tensor, a product, an addition and a distributive node) are declared
  only, as are \<open>Tensor::operator()(const std::string&)\<close> and
  \<open>LabeledTensor::operator*(const LabeledTensor&)\<close>. What follows is section 4.E of the
  spec, with the eager detection of section 7: an assignment validates first, "before any
  kernel runs", and "implementations must validate before zeroing".
\<close>

text \<open>"Each label is a single character identifier"; the factor defaults to \<open>1.0\<close>.\<close>

definition Tensor_label :: "Tensor \<Rightarrow> string \<Rightarrow> LabeledTensor" where
  "Tensor_label t inds = LabeledTensor_ctor t (map (\<lambda>c. [c]) inds) one"

definition LabeledTensor_times :: "LabeledTensor \<Rightarrow> LabeledTensor \<Rightarrow> LabeledTensorProduct" where
  "LabeledTensor_times this rhs = LabeledTensorProduct_ctor this rhs"

text \<open>\<open>LabeledTensorDistributive\<close> has the members \<open>A_\<close> and \<open>B_\<close>.\<close>

record LabeledTensorDistributive =
  dist_A :: LabeledTensor
  dist_B :: LabeledTensorAddition

datatype assign_op = op_assign | op_plus_assign | op_minus_assign

text \<open>
  "\<open>-=\<close> negates the top-level scalar factor and lowers as \<open>+=\<close>"; \<open>beta\<close> is \<open>1\<close> for
  \<open>+=\<close> and \<open>0\<close> for \<open>=\<close>.
\<close>

definition op_alpha :: "assign_op \<Rightarrow> double \<Rightarrow> double" where
  "op_alpha op f = (if op = op_minus_assign then dneg f else f)"

definition op_beta :: "assign_op \<Rightarrow> double" where
  "op_beta op = (if op = op_assign then pzero else one)"

text \<open>
  The outcome of an assignment is the error it signals, if any, and the storage it leaves
  behind. A kernel that fails leaves the storage as it found it; whatever was written
  before stays written.
\<close>

type_synonym outcome = "error option \<times> storage"

definition run_kernel :: "storage \<Rightarrow> error + storage \<Rightarrow> outcome" where
  "run_kernel s r = (case r of Inl e \<Rightarrow> (Some e, s) | Inr s' \<Rightarrow> (None, s'))"

definition and_then :: "outcome \<Rightarrow> (storage \<Rightarrow> outcome) \<Rightarrow> outcome" where
  "and_then r f = (case fst r of Some e \<Rightarrow> r | None \<Rightarrow> f (snd r))"

fun first_error :: "error option list \<Rightarrow> error option" where
  "first_error [] = None"
| "first_error (None # es) = first_error es"
| "first_error (Some e # es) = Some e"

subsection \<open>Labeled from labeled\<close>

text \<open>
  "Validate external labels are a permutation of target's; dispatch
  \<open>permute(\<alpha>=factor, \<beta>=1 for +=, \<beta>=0 for =)\<close>."
\<close>

definition permute_into :: "LabeledTensor \<Rightarrow> LabeledTensor \<Rightarrow> double \<Rightarrow> double \<Rightarrow> storage \<Rightarrow> outcome" where
  "permute_into this rhs alpha beta s =
     run_kernel s (Tensor_permute s (lt_T this) (lt_T rhs) (lt_indices this) (lt_indices rhs)
                     alpha beta)"

text \<open>
  "Labels within one labeled tensor may repeat only to express a trace over those axes
  (the repeated axes must share the same extent)." A right-hand side with a repeated
  label is a self-contraction, "a reduction-to-diagonal when output contains the label,
  trace when it does not, computed by a pre-permute sum step": the traced labels are
  summed over, each kept label stands once, and the result of that step is what is
  permuted into the target.
\<close>

definition traced_labels :: "Indices \<Rightarrow> Indices \<Rightarrow> Indices" where
  "traced_labels Cinds Ainds =
     remdups (filter (\<lambda>l. 1 < count_list Ainds l \<and> l \<notin> set Cinds) Ainds)"

definition kept_labels :: "Indices \<Rightarrow> Indices \<Rightarrow> Indices" where
  "kept_labels Cinds Ainds =
     remdups (filter (\<lambda>l. \<not> (1 < count_list Ainds l \<and> l \<notin> set Cinds)) Ainds)"

fun dsum :: "double list \<Rightarrow> double" where
  "dsum [] = pzero"
| "dsum (x # xs) = foldl dadd x xs"

definition self_contraction_dims :: "Dimension \<Rightarrow> Indices \<Rightarrow> Indices \<Rightarrow> Dimension" where
  "self_contraction_dims adims Cinds Ainds =
     map (label_value (zip Ainds adims)) (kept_labels Cinds Ainds)"

definition self_contraction_data ::
    "Dimension \<Rightarrow> double list \<Rightarrow> Indices \<Rightarrow> Indices \<Rightarrow> double list" where
  "self_contraction_data adims adata Cinds Ainds =
     (let ks = kept_labels Cinds Ainds;
          ts = traced_labels Cinds Ainds;
          ext = zip Ainds adims
      in map (\<lambda>kidx.
                dsum (map (\<lambda>tidx.
                             adata ! offset adims
                                       (map (label_value (zip ks kidx @ zip ts tidx)) Ainds))
                          (multi_indices (map (label_value ext) ts))))
             (multi_indices (map (label_value ext) ks)))"

text \<open>The checks of a permute, on shapes alone.\<close>

definition permute_check_shapes :: "Dimension \<times> Indices \<Rightarrow> Dimension \<times> Indices \<Rightarrow> error option" where
  "permute_check_shapes c a =
     (if length (snd c) \<noteq> length (fst c) \<or> length (snd a) \<noteq> length (fst a)
        then Some label_mismatch
      else if \<not> distinct (snd c) \<or> \<not> distinct (snd a) \<or> set (snd c) \<noteq> set (snd a)
        then Some label_mismatch
      else if \<not> extents_consistent (zip (snd c) (fst c) @ zip (snd a) (fst a))
        then Some shape_mismatch
      else None)"

definition self_contraction_check :: "storage \<Rightarrow> LabeledTensor \<Rightarrow> LabeledTensor \<Rightarrow> error option" where
  "self_contraction_check s this rhs =
     (case impl_of s (lt_T this) of None \<Rightarrow> Some empty_handle
      | Some ci \<Rightarrow>
     (case impl_of s (lt_T rhs) of None \<Rightarrow> Some empty_handle
      | Some ai \<Rightarrow>
        if length (lt_indices rhs) \<noteq> length (impl_dims ai) then Some label_mismatch
        else if \<not> extents_consistent (zip (lt_indices rhs) (impl_dims ai))
          then Some shape_mismatch
        else permute_check_shapes (impl_dims ci, lt_indices this)
               (self_contraction_dims (impl_dims ai) (lt_indices this) (lt_indices rhs),
                kept_labels (lt_indices this) (lt_indices rhs))))"


definition self_contraction_write ::
    "LabeledTensor \<Rightarrow> LabeledTensor \<Rightarrow> double \<Rightarrow> double \<Rightarrow> storage \<Rightarrow> storage" where
  "self_contraction_write this rhs alpha beta s =
     (case (impl_of s (lt_T this), impl_of s (lt_T rhs)) of
        (Some ci, Some ai) \<Rightarrow>
          set_data s (lt_T this)
            (permute_data (impl_dims ci) (impl_data ci)
               (self_contraction_dims (impl_dims ai) (lt_indices this) (lt_indices rhs))
               (self_contraction_data (impl_dims ai) (impl_data ai) (lt_indices this)
                  (lt_indices rhs))
               (lt_indices this) (kept_labels (lt_indices this) (lt_indices rhs)) alpha beta)
      | _ \<Rightarrow> s)"


text \<open>The self-contraction as a step that checks before it writes, as a kernel does.\<close>

definition self_contraction_into ::
    "LabeledTensor \<Rightarrow> LabeledTensor \<Rightarrow> double \<Rightarrow> double \<Rightarrow> storage \<Rightarrow> outcome" where
  "self_contraction_into this rhs alpha beta s =
     (case self_contraction_check s this rhs of Some e \<Rightarrow> (Some e, s)
      | None \<Rightarrow> (None, self_contraction_write this rhs alpha beta s))"

definition labeled_into :: "LabeledTensor \<Rightarrow> LabeledTensor \<Rightarrow> double \<Rightarrow> double \<Rightarrow> storage \<Rightarrow> outcome" where
  "labeled_into this rhs alpha beta s =
     (if distinct (lt_indices rhs) then permute_into this rhs alpha beta s
      else self_contraction_into this rhs alpha beta s)"

definition validate_LabeledTensor :: "storage \<Rightarrow> LabeledTensor \<Rightarrow> LabeledTensor \<Rightarrow> error option" where
  "validate_LabeledTensor s this rhs =
     (if distinct (lt_indices rhs)
        then permute_check s (lt_T this) (lt_T rhs) (lt_indices this) (lt_indices rhs)
      else self_contraction_check s this rhs)"

definition assign_LabeledTensor :: "storage \<Rightarrow> assign_op \<Rightarrow> LabeledTensor \<Rightarrow> LabeledTensor \<Rightarrow> outcome" where
  "assign_LabeledTensor s op this rhs =
     (case validate_LabeledTensor s this rhs of Some e \<Rightarrow> (Some e, s)
      | None \<Rightarrow> labeled_into this rhs (op_alpha op (lt_factor rhs)) (op_beta op) s)"

subsection \<open>Labeled from addition\<close>

text \<open>
  "Lower each term in order with \<open>+=\<close> into the target; for \<open>=\<close>, zero the target
  first."
\<close>

definition validate_LabeledTensorAddition ::
    "storage \<Rightarrow> LabeledTensor \<Rightarrow> LabeledTensorAddition \<Rightarrow> error option" where
  "validate_LabeledTensorAddition s this rhs =
     first_error (map (validate_LabeledTensor s this) (add_tensors rhs))"

definition zero_for :: "assign_op \<Rightarrow> LabeledTensor \<Rightarrow> storage \<Rightarrow> storage" where
  "zero_for op this s = (if op = op_assign then Tensor_zero s (lt_T this) else s)"

definition assign_LabeledTensorAddition ::
    "storage \<Rightarrow> assign_op \<Rightarrow> LabeledTensor \<Rightarrow> LabeledTensorAddition \<Rightarrow> outcome" where
  "assign_LabeledTensorAddition s op this rhs =
     (case validate_LabeledTensorAddition s this rhs of Some e \<Rightarrow> (Some e, s)
      | None \<Rightarrow>
          fold (\<lambda>t r. and_then r (labeled_into this t (op_alpha op (lt_factor t)) one))
               (add_tensors rhs) (None, zero_for op this s))"

subsection \<open>Labeled from product\<close>

text \<open>
  A product of two labeled tensors is one contraction into the target, with the
  product's accumulated scalar as \<open>alpha\<close> and the assignment's \<open>beta\<close>.
\<close>

definition validate_pair :: "storage \<Rightarrow> LabeledTensor \<Rightarrow> LabeledTensor \<Rightarrow> LabeledTensor \<Rightarrow> error option" where
  "validate_pair s this a b =
     contract_check s (lt_T this) (lt_T a) (lt_T b) (lt_indices this) (lt_indices a) (lt_indices b)"

definition contract_into ::
    "LabeledTensor \<Rightarrow> LabeledTensor \<Rightarrow> LabeledTensor \<Rightarrow> double \<Rightarrow> double \<Rightarrow> storage \<Rightarrow> outcome" where
  "contract_into this a b alpha beta s =
     run_kernel s (Tensor_contract s (lt_T this) (lt_T a) (lt_T b)
                     (lt_indices this) (lt_indices a) (lt_indices b) alpha beta)"


text \<open>
  A longer product is planned: the planner returns "a binary tree of pair-steps", whose
  leaves are the positions of the factors. The cost metric that selects the tree is
  left open here: the planner is a parameter, given the shapes and labels of the factors
  and the labels of the target. Each inner pair-step contracts into a temporary that
  carries the labels needed outside of the step; the pair-step at the root writes into
  the target.
\<close>

datatype plan = Leaf nat | Pair plan plan

type_synonym shape = "Dimension \<times> Indices"
type_synonym planner = "shape list \<Rightarrow> Indices \<Rightarrow> plan"

fun plan_leaves :: "plan \<Rightarrow> nat list" where
  "plan_leaves (Leaf i) = [i]"
| "plan_leaves (Pair l r) = plan_leaves l @ plan_leaves r"

definition plan_labels :: "shape list \<Rightarrow> plan \<Rightarrow> Indices" where
  "plan_labels sh p = concat (map (\<lambda>i. snd (sh ! i)) (plan_leaves p))"

definition pair_labels :: "Indices \<Rightarrow> Indices \<Rightarrow> Indices \<Rightarrow> Indices" where
  "pair_labels outer ai bi = remdups (filter (\<lambda>l. l \<in> set outer) (ai @ bi))"

definition pair_dims :: "shape \<Rightarrow> shape \<Rightarrow> Indices \<Rightarrow> Dimension" where
  "pair_dims a b ci = map (label_value (zip (snd a) (fst a) @ zip (snd b) (fst b))) ci"

text \<open>The label checks of a contraction, on shapes alone.\<close>

definition contract_check_shapes :: "shape \<Rightarrow> shape \<Rightarrow> shape \<Rightarrow> error option" where
  "contract_check_shapes c a b =
     (if length (snd c) \<noteq> length (fst c) \<or> length (snd a) \<noteq> length (fst a)
         \<or> length (snd b) \<noteq> length (fst b)
        then Some label_mismatch
      else if \<not> list_all (\<lambda>l. count_list (snd a @ snd b) l = 1) (snd c)
         \<or> \<not> list_all (\<lambda>l. count_list (snd c @ snd a @ snd b) l \<le> 2) (snd c @ snd a @ snd b)
        then Some label_mismatch
      else if \<not> extents_consistent
                 (zip (snd c) (fst c) @ zip (snd a) (fst a) @ zip (snd b) (fst b))
        then Some shape_mismatch
      else None)"

text \<open>The shape of the result of a subtree of the plan, or the error found in it.\<close>

fun plan_shape :: "shape list \<Rightarrow> Indices \<Rightarrow> plan \<Rightarrow> error + shape" where
  "plan_shape sh outer (Leaf i) = Inr (sh ! i)"
| "plan_shape sh outer (Pair l r) =
     (case plan_shape sh (outer @ plan_labels sh r) l of Inl e \<Rightarrow> Inl e
      | Inr a \<Rightarrow>
     (case plan_shape sh (outer @ plan_labels sh l) r of Inl e \<Rightarrow> Inl e
      | Inr b \<Rightarrow>
        let ci = pair_labels outer (snd a) (snd b);
            c = (pair_dims a b ci, ci)
        in (case contract_check_shapes c a b of Some e \<Rightarrow> Inl e | None \<Rightarrow> Inr c)))"

text \<open>
  The elements of the result of a subtree: for a leaf the elements of that factor, for a
  pair-step the contraction of its two sides into a fresh temporary (\<open>alpha = 1\<close>,
  \<open>beta = 0\<close>).
\<close>

fun plan_data :: "shape list \<Rightarrow> double list list \<Rightarrow> Indices \<Rightarrow> plan \<Rightarrow> double list" where
  "plan_data sh dat outer (Leaf i) = dat ! i"
| "plan_data sh dat outer (Pair l r) =
     (case (plan_shape sh (outer @ plan_labels sh r) l,
            plan_shape sh (outer @ plan_labels sh l) r) of
        (Inr a, Inr b) \<Rightarrow>
          let ci = pair_labels outer (snd a) (snd b);
              cd = pair_dims a b ci
          in contract_data cd (replicate (prod_list cd) pzero)
               (fst a) (plan_data sh dat (outer @ plan_labels sh r) l)
               (fst b) (plan_data sh dat (outer @ plan_labels sh l) r)
               ci (snd a) (snd b) one pzero
      | _ \<Rightarrow> [])"

definition shape_of :: "storage \<Rightarrow> LabeledTensor \<Rightarrow> shape option" where
  "shape_of s l = map_option (\<lambda>i. (impl_dims i, lt_indices l)) (impl_of s (lt_T l))"

definition dims_of :: "storage \<Rightarrow> LabeledTensor \<Rightarrow> Dimension" where
  "dims_of s l = (case impl_of s (lt_T l) of None \<Rightarrow> [] | Some i \<Rightarrow> impl_dims i)"

definition data_of :: "storage \<Rightarrow> LabeledTensor \<Rightarrow> double list" where
  "data_of s l = (case impl_of s (lt_T l) of None \<Rightarrow> [] | Some i \<Rightarrow> impl_data i)"

definition product_factor :: "LabeledTensor list \<Rightarrow> double" where
  "product_factor ts = foldl dmul one (map lt_factor ts)"

text \<open>
  The validation of a planned product: every handle shares storage; the tree is a
  pair-step over each factor exactly once; no label is in more than two positions of
  the target and the factors; every pair-step, the one at the root into the target
  included, passes the checks of a contraction.
\<close>

definition validate_planned ::
    "planner \<Rightarrow> storage \<Rightarrow> LabeledTensor \<Rightarrow> LabeledTensor list \<Rightarrow> error option" where
  "validate_planned pl s this ts =
     (case shape_of s this of None \<Rightarrow> Some empty_handle
      | Some c \<Rightarrow>
        if \<not> list_all (\<lambda>t. shape_of s t \<noteq> None) ts then Some empty_handle
        else
          let sh = map (\<lambda>t. (dims_of s t, lt_indices t)) ts;
              labels = snd c @ concat (map snd sh)
          in if \<not> list_all (\<lambda>l. count_list labels l \<le> 2) labels then Some planning_failure
             else
               (case pl sh (snd c) of Leaf i \<Rightarrow> Some planning_failure
                | Pair l r \<Rightarrow>
                    if sort (plan_leaves (Pair l r)) \<noteq> [0..<length ts] then Some planning_failure
                    else
                     (case plan_shape sh (snd c @ plan_labels sh r) l of Inl e \<Rightarrow> Some e
                      | Inr a \<Rightarrow>
                     (case plan_shape sh (snd c @ plan_labels sh l) r of Inl e \<Rightarrow> Some e
                      | Inr b \<Rightarrow> contract_check_shapes c a b))))"

definition run_planned ::
    "planner \<Rightarrow> LabeledTensor \<Rightarrow> LabeledTensor list \<Rightarrow> double \<Rightarrow> double \<Rightarrow> storage \<Rightarrow> storage" where
  "run_planned pl this ts alpha beta s =
     (let sh = map (\<lambda>t. (dims_of s t, lt_indices t)) ts;
          dat = map (data_of s) ts;
          outer = lt_indices this
      in case pl sh outer of Leaf i \<Rightarrow> s
         | Pair l r \<Rightarrow>
            (case (plan_shape sh (outer @ plan_labels sh r) l,
                   plan_shape sh (outer @ plan_labels sh l) r) of
               (Inr a, Inr b) \<Rightarrow>
                 set_data s (lt_T this)
                   (contract_data (dims_of s this) (data_of s this)
                      (fst a) (plan_data sh dat (outer @ plan_labels sh r) l)
                      (fst b) (plan_data sh dat (outer @ plan_labels sh l) r)
                      outer (snd a) (snd b) alpha beta)
             | _ \<Rightarrow> s))"

definition validate_LabeledTensorProduct ::
    "planner \<Rightarrow> storage \<Rightarrow> LabeledTensor \<Rightarrow> LabeledTensorProduct \<Rightarrow> error option" where
  "validate_LabeledTensorProduct pl s this rhs =
     (case prod_tensors rhs of [a, b] \<Rightarrow> validate_pair s this a b
      | ts \<Rightarrow> validate_planned pl s this ts)"

definition assign_LabeledTensorProduct ::
    "planner \<Rightarrow> storage \<Rightarrow> assign_op \<Rightarrow> LabeledTensor \<Rightarrow> LabeledTensorProduct \<Rightarrow> outcome" where
  "assign_LabeledTensorProduct pl s op this rhs =
     (case validate_LabeledTensorProduct pl s this rhs of Some e \<Rightarrow> (Some e, s)
      | None \<Rightarrow>
         (case prod_tensors rhs of
            [a, b] \<Rightarrow>
              contract_into this a b (op_alpha op (dmul (lt_factor a) (lt_factor b))) (op_beta op) s
          | ts \<Rightarrow> (None, run_planned pl this ts (op_alpha op (product_factor ts)) (op_beta op) s)))"

subsection \<open>Labeled from distributive\<close>

text \<open>
  "Expand to addition of products and lower": \<open>L \<cdot> (t\<^sub>1 + t\<^sub>2 + \<dots>)\<close> lowers to
  \<open>\<Sum>\<^sub>i (L \<cdot> t\<^sub>i)\<close>, each product accumulated into the target.
\<close>

definition validate_LabeledTensorDistributive ::
    "storage \<Rightarrow> LabeledTensor \<Rightarrow> LabeledTensorDistributive \<Rightarrow> error option" where
  "validate_LabeledTensorDistributive s this rhs =
     first_error (map (validate_pair s this (dist_A rhs)) (add_tensors (dist_B rhs)))"

definition assign_LabeledTensorDistributive ::
    "storage \<Rightarrow> assign_op \<Rightarrow> LabeledTensor \<Rightarrow> LabeledTensorDistributive \<Rightarrow> outcome" where
  "assign_LabeledTensorDistributive s op this rhs =
     (case validate_LabeledTensorDistributive s this rhs of Some e \<Rightarrow> (Some e, s)
      | None \<Rightarrow>
          fold (\<lambda>t r. and_then r
                  (contract_into this (dist_A rhs) t
                     (op_alpha op (dmul (lt_factor (dist_A rhs)) (lt_factor t))) one))
               (add_tensors (dist_B rhs)) (None, zero_for op this s))"

subsection \<open>Any right-hand side\<close>

datatype expression =
    Labeled LabeledTensor
  | Product LabeledTensorProduct
  | Addition LabeledTensorAddition
  | Distributive LabeledTensorDistributive


fun assign :: "planner \<Rightarrow> storage \<Rightarrow> assign_op \<Rightarrow> LabeledTensor \<Rightarrow> expression \<Rightarrow> outcome" where
  "assign pl s op this (Labeled rhs) = assign_LabeledTensor s op this rhs"
| "assign pl s op this (Product rhs) = assign_LabeledTensorProduct pl s op this rhs"
| "assign pl s op this (Addition rhs) = assign_LabeledTensorAddition s op this rhs"
| "assign pl s op this (Distributive rhs) = assign_LabeledTensorDistributive s op this rhs"




section \<open>HDF5 dataspaces (\<open>dataspace.cc\<close>)\<close>

text \<open>
  \<open>H5Screate_simple(rank, dims, maxdims)\<close> belongs to the HDF5 library: here it is a
  parameter, the identifier it returns for its arguments (negative on failure). The
  calls made are recorded. \<open>hsize_t\<close> and \<open>size_t\<close> are both unsigned 64-bit, so the
  copy of the extents into \<open>cdims\<close> keeps them; \<open>static_cast<int>\<close> of the size keeps
  its low 32 bits as a signed number.
\<close>

datatype h5_call = H5Screate_simple int "nat list" "nat list option"

type_synonym h5_library = "int \<Rightarrow> nat list \<Rightarrow> nat list option \<Rightarrow> int"

record Dataspace =
  dataspace_id :: int

definition static_cast_int :: "nat \<Rightarrow> int" where
  "static_cast_int n = signed_take_bit 31 (int n)"

definition create_dataspace ::
    "h5_library \<Rightarrow> nat list \<Rightarrow> nat list option \<Rightarrow> h5_call list \<times> (error + Dataspace)" where
  "create_dataspace h5 cdims mdims =
     (let id = h5 (static_cast_int (length cdims)) cdims mdims
      in ([H5Screate_simple (static_cast_int (length cdims)) cdims mdims],
          if id < 0 then Inl (runtime_error ''Unable to create dataspace.'')
          else Inr \<lparr>dataspace_id = id\<rparr>))"

text \<open>\<open>Dataspace::Dataspace(const Tensor& tensor)\<close>.\<close>

definition Dataspace_of_Tensor ::
    "h5_library \<Rightarrow> storage \<Rightarrow> Tensor \<Rightarrow> h5_call list \<times> (error + Dataspace)" where
  "Dataspace_of_Tensor h5 s tensor =
     (case Tensor_dims s tensor of None \<Rightarrow> ([], Inl empty_handle)
      | Some dims \<Rightarrow> create_dataspace h5 dims None)"

text \<open>
  \<open>Dataspace::Dataspace(const Dimension& current_dims)\<close>. An \<open>assert\<close> is checked
  unless the file is compiled with \<open>NDEBUG\<close>.
\<close>

definition Dataspace_of_Dimension ::
    "bool \<Rightarrow> h5_library \<Rightarrow> Dimension \<Rightarrow> h5_call list \<times> (error + Dataspace)" where
  "Dataspace_of_Dimension ndebug h5 current_dims =
     (if \<not> ndebug \<and> \<not> 0 < length current_dims then ([], Inl assertion_failure)
      else create_dataspace h5 current_dims None)"

text \<open>
  \<open>Dataspace::Dataspace(const Dimension& current_dims, const Dimension& maximum_dims)\<close>.
  The third argument of the call is \<open>mdims.data()\<close>, which is the null pointer when
  \<open>mdims\<close> is empty.
\<close>

definition Dataspace_of_Dimensions ::
    "bool \<Rightarrow> h5_library \<Rightarrow> Dimension \<Rightarrow> Dimension \<Rightarrow> h5_call list \<times> (error + Dataspace)" where
  "Dataspace_of_Dimensions ndebug h5 current_dims maximum_dims =
     (if \<not> ndebug \<and> \<not> 0 < length current_dims then ([], Inl assertion_failure)
      else if \<not> ndebug \<and> length current_dims \<noteq> length maximum_dims
        then ([], Inl assertion_failure)
      else create_dataspace h5 current_dims
             (if maximum_dims = [] then None else Some maximum_dims))"


section \<open>Scenarios\<close>

text \<open>
  The matrices of the matrix-multiply scenario, \<open>A = [[1,2],[3,4]]\<close> and
  \<open>B = [[5,6],[7,8]]\<close>, with a 2x2 target holding \<open>cs\<close>.
\<close>

definition matrix_storage :: "double list \<Rightarrow> storage" where
  "matrix_storage cs =
     [\<lparr>impl_type = kCore, impl_name = ''A'', impl_dims = [2, 2],
       impl_data = map double_of_int [1, 2, 3, 4]\<rparr>,
      \<lparr>impl_type = kCore, impl_name = ''B'', impl_dims = [2, 2],
       impl_data = map double_of_int [5, 6, 7, 8]\<rparr>,
      \<lparr>impl_type = kCore, impl_name = ''C'', impl_dims = [2, 2], impl_data = cs\<rparr>]"

text \<open>
  A 1x2 matrix \<open>A = [[2^1023, 2^1023]]\<close>, a 2x1 matrix \<open>B = [[2], [-2]]\<close> and a 1x1
  target that holds a NaN.
\<close>

definition overflow_storage :: storage where
  "overflow_storage =
     [\<lparr>impl_type = kCore, impl_name = ''A'', impl_dims = [1, 2],
       impl_data = [DFinite False (2 ^ 52) 971, DFinite False (2 ^ 52) 971]\<rparr>,
      \<lparr>impl_type = kCore, impl_name = ''B'', impl_dims = [2, 1],
       impl_data = [DFinite False (2 ^ 52) (- 51), DFinite True (2 ^ 52) (- 51)]\<rparr>,
      \<lparr>impl_type = kCore, impl_name = ''C'', impl_dims = [1, 1], impl_data = [DNaN]\<rparr>]"



section \<open>Evaluating doubles\<close>

lemma bit_length_0: "bit_length 0 = 0"
  by (simp add: bit_length.simps)

lemma bit_length_1: "bit_length 1 = 1"
  by (simp add: bit_length.simps)

lemma bit_length_Suc_0: "bit_length (Suc 0) = 1"
  by (simp add: bit_length.simps)

lemma bit_length_numeral: "bit_length (numeral k) = Suc (bit_length (numeral k div 2))"
  by (subst bit_length.simps) simp

lemma round_double_0: "round_double s 0 E = DFinite s 0 (- 1074)"
  by (simp add: round_double_def)

lemmas round_double_numeral = round_double_def [of _ "numeral k" for k]
lemmas round_double_1 = round_double_def [of _ 1]
lemmas round_double_Suc_0 = round_double_def [of _ "Suc 0"]

lemmas double_eval = bit_length_0 bit_length_1 bit_length_Suc_0 bit_length_numeral
  round_double_0 round_double_numeral round_double_1 round_double_Suc_0
  Let_def signed_significand_def double_of_int_def one_def pzero_def

lemma dneg_dneg: "dneg (dneg x) = x"
  by (cases x) simp_all

section \<open>The expression algebra of the header\<close>

text \<open>
  Claim C7. For an addition node \<open>S\<close> and a labeled tensor \<open>L\<close>, \<open>S - L\<close> is the node
  \<open>S + (-L)\<close>, as a value and as an operation on the node in memory: the terms of \<open>S\<close>
  are kept, one term is appended, and that term has the tensor and the labels of \<open>L\<close>
  and the negated factor of \<open>L\<close>.
\<close>

theorem addition_minus_is_plus_of_negation:
  "LabeledTensorAddition_minus S L = LabeledTensorAddition_plus S (LabeledTensor_uminus L)
   \<and> LabeledTensorAddition_minus_ref s p L
       = LabeledTensorAddition_plus_ref s p (LabeledTensor_uminus L)
   \<and> take (LabeledTensorAddition_size S) (add_tensors (LabeledTensorAddition_minus S L))
       = add_tensors S
   \<and> LabeledTensorAddition_size (LabeledTensorAddition_minus S L)
       = LabeledTensorAddition_size S + 1
   \<and> lt_T (last (add_tensors (LabeledTensorAddition_minus S L))) = lt_T L
   \<and> lt_indices (last (add_tensors (LabeledTensorAddition_minus S L))) = lt_indices L
   \<and> lt_factor (last (add_tensors (LabeledTensorAddition_minus S L))) = dneg (lt_factor L)"
  by (simp add: LabeledTensorAddition_minus_def LabeledTensorAddition_plus_def
      LabeledTensorAddition_minus_ref_def LabeledTensorAddition_plus_ref_def call_on_def
      LabeledTensorAddition_size_def LabeledTensor_uminus_def LabeledTensor_ctor_def
      split: option.split)

text \<open>
  Claim C8, as amended. \<open>a * L\<close> has the tensor and the labels of \<open>L\<close> and the factor
  \<open>a * factor(L)\<close>; \<open>-L\<close> has the factor \<open>-factor(L)\<close>; \<open>-(-L) = L\<close>; and \<open>a * (b * L)\<close>
  has the factor \<open>a * (b * factor(L))\<close>, the two products taken in that order.
\<close>

theorem scaling_acts_on_factor:
  fixes L :: LabeledTensor
  shows "lt_T (double_times_LabeledTensor a L) = lt_T L
   \<and> lt_indices (double_times_LabeledTensor a L) = lt_indices L
   \<and> lt_factor (double_times_LabeledTensor a L) = dmul a (lt_factor L)
   \<and> lt_T (LabeledTensor_uminus L) = lt_T L
   \<and> lt_indices (LabeledTensor_uminus L) = lt_indices L
   \<and> lt_factor (LabeledTensor_uminus L) = dneg (lt_factor L)
   \<and> double_times_LabeledTensor a (double_times_LabeledTensor b L)
       = L\<lparr>lt_factor := dmul a (dmul b (lt_factor L))\<rparr>
   \<and> LabeledTensor_uminus (LabeledTensor_uminus L) = L"
  by (simp add: double_times_LabeledTensor_def LabeledTensor_uminus_def LabeledTensor_ctor_def
      dneg_dneg)

text \<open>
  The products are products of doubles, and \<open>a * (b * f)\<close> need not be \<open>(a * b) * f\<close>:
  with \<open>a = b = 2^1000\<close> and \<open>f = 2^-1000\<close> the first is \<open>2^1000\<close> and the second is
  infinite, \<open>a * b\<close> having overflowed.
\<close>

theorem scaling_not_associative:
  "double_times_LabeledTensor (DFinite False (2 ^ 52) 948)
     (double_times_LabeledTensor (DFinite False (2 ^ 52) 948)
        \<lparr>lt_T = \<lparr>tensor_ptr = Some 0\<rparr>, lt_indices = [''i''],
         lt_factor = DFinite False (2 ^ 52) (- 1052)\<rparr>)
   \<noteq> double_times_LabeledTensor (dmul (DFinite False (2 ^ 52) 948) (DFinite False (2 ^ 52) 948))
        \<lparr>lt_T = \<lparr>tensor_ptr = Some 0\<rparr>, lt_indices = [''i''],
         lt_factor = DFinite False (2 ^ 52) (- 1052)\<rparr>"
  by (simp add: double_times_LabeledTensor_def LabeledTensor_ctor_def double_eval)

text \<open>
  Claim C9. Appending to a product node with \<open>*\<close>, or to an addition node with \<open>+\<close> or
  \<open>-\<close>, changes the node at the address it is called on and returns that address: the
  node has one entry more, its earlier entries are kept and its last entry is the
  appended tensor (negated for \<open>-\<close>); no other address comes into use.
\<close>

theorem append_in_place:
  assumes "sp p = Some node" and "sa q = Some anode"
  shows "LabeledTensorProduct_times_ref sp p L
           = Some (sp(p \<mapsto> \<lparr>prod_tensors = prod_tensors node @ [L]\<rparr>), p)
   \<and> dom (sp(p \<mapsto> \<lparr>prod_tensors = prod_tensors node @ [L]\<rparr>)) = dom sp
   \<and> LabeledTensorProduct_size \<lparr>prod_tensors = prod_tensors node @ [L]\<rparr>
       = LabeledTensorProduct_size node + 1
   \<and> take (LabeledTensorProduct_size node) (prod_tensors node @ [L]) = prod_tensors node
   \<and> last (prod_tensors node @ [L]) = L
   \<and> LabeledTensorAddition_plus_ref sa q L
           = Some (sa(q \<mapsto> \<lparr>add_tensors = add_tensors anode @ [L]\<rparr>), q)
   \<and> LabeledTensorAddition_minus_ref sa q L
           = Some (sa(q \<mapsto> \<lparr>add_tensors = add_tensors anode @ [LabeledTensor_uminus L]\<rparr>), q)
   \<and> dom (sa(q \<mapsto> \<lparr>add_tensors = add_tensors anode @ [L]\<rparr>)) = dom sa"
  using assms
  by (auto simp add: LabeledTensorProduct_times_ref_def LabeledTensorAddition_plus_ref_def
      LabeledTensorAddition_minus_ref_def call_on_def LabeledTensorProduct_times_def
      LabeledTensorAddition_plus_def LabeledTensorAddition_minus_def
      LabeledTensorProduct_size_def)

theorem append_in_place_witness:
  "LabeledTensorProduct_times_ref
      [0 \<mapsto> LabeledTensorProduct_ctor (Tensor_label \<lparr>tensor_ptr = Some 0\<rparr> ''ik'')
                (Tensor_label \<lparr>tensor_ptr = Some 1\<rparr> ''kl'')]
      0 (Tensor_label \<lparr>tensor_ptr = Some 2\<rparr> ''lj'')
   = Some ([0 \<mapsto> \<lparr>prod_tensors = [Tensor_label \<lparr>tensor_ptr = Some 0\<rparr> ''ik'',
                                   Tensor_label \<lparr>tensor_ptr = Some 1\<rparr> ''kl'',
                                   Tensor_label \<lparr>tensor_ptr = Some 2\<rparr> ''lj'']\<rparr>], 0)"
  using append_in_place [of
      "[0 \<mapsto> LabeledTensorProduct_ctor (Tensor_label \<lparr>tensor_ptr = Some 0\<rparr> ''ik'')
                (Tensor_label \<lparr>tensor_ptr = Some 1\<rparr> ''kl'')]"
      0
      "LabeledTensorProduct_ctor (Tensor_label \<lparr>tensor_ptr = Some 0\<rparr> ''ik'')
                (Tensor_label \<lparr>tensor_ptr = Some 1\<rparr> ''kl'')"
      "[0 \<mapsto> LabeledTensorAddition_ctor (Tensor_label \<lparr>tensor_ptr = Some 0\<rparr> ''ik'')
                (Tensor_label \<lparr>tensor_ptr = Some 1\<rparr> ''ik'')]"
      0
      "LabeledTensorAddition_ctor (Tensor_label \<lparr>tensor_ptr = Some 0\<rparr> ''ik'')
                (Tensor_label \<lparr>tensor_ptr = Some 1\<rparr> ''ik'')"
      "Tensor_label \<lparr>tensor_ptr = Some 2\<rparr> ''lj''"]
  by (simp add: LabeledTensorProduct_ctor_def)

section \<open>Dataspaces\<close>

text \<open>
  Claim C10. With assertions compiled in, both constructors that take a \<open>Dimension\<close>
  fail their assertion on an empty dimension sequence and make no HDF5 call, and a
  non-empty sequence passes on to the creation of the dataspace; the constructor that
  takes a \<open>Tensor\<close> checks no rank, and for a rank-0 tensor calls
  \<open>H5Screate_simple\<close> with rank \<open>0\<close> and the empty dimension list.
\<close>

theorem dataspace_rank_checks:
  "Dataspace_of_Dimension False h5 [] = ([], Inl assertion_failure)
   \<and> Dataspace_of_Dimensions False h5 [] maximum_dims = ([], Inl assertion_failure)
   \<and> (current_dims \<noteq> [] \<longrightarrow>
        Dataspace_of_Dimension False h5 current_dims = create_dataspace h5 current_dims None)
   \<and> (Tensor_dims s tensor = Some [] \<longrightarrow>
        Dataspace_of_Tensor h5 s tensor
          = ([H5Screate_simple 0 [] None],
             if h5 0 [] None < 0 then Inl (runtime_error ''Unable to create dataspace.'')
             else Inr \<lparr>dataspace_id = h5 0 [] None\<rparr>))"
  by (simp add: Dataspace_of_Dimension_def Dataspace_of_Dimensions_def Dataspace_of_Tensor_def
      create_dataspace_def static_cast_int_def)

theorem dataspace_rank_checks_witness:
  "Dataspace_of_Dimension False (\<lambda>r d m. 7) [2, 3]
     = ([H5Screate_simple 2 [2, 3] None], Inr \<lparr>dataspace_id = 7\<rparr>)
   \<and> Dataspace_of_Tensor (\<lambda>r d m. 7)
        [\<lparr>impl_type = kCore, impl_name = ''s'', impl_dims = [], impl_data = [one]\<rparr>]
        \<lparr>tensor_ptr = Some 0\<rparr>
     = ([H5Screate_simple 0 [] None], Inr \<lparr>dataspace_id = 7\<rparr>)"
  using dataspace_rank_checks [of "\<lambda>r d m. 7" "[]" "[2, 3]"
      "[\<lparr>impl_type = kCore, impl_name = ''s'', impl_dims = [], impl_data = [one]\<rparr>]"
      "\<lparr>tensor_ptr = Some 0\<rparr>"]
  by (simp add: Tensor_dims_def impl_of_def create_dataspace_def static_cast_int_def)

section \<open>Storage\<close>

text \<open>
  Claim C5. For a handle that shares storage, \<open>data()\<close> returns the element buffer if
  and only if the backend kind is \<open>kCore\<close>; for every other kind it signals the
  backend-unsupported error.
\<close>

theorem data_only_for_core:
  assumes "impl_of s t = Some i"
  shows "((\<exists>buffer. Tensor_data s t = Inr buffer) \<longleftrightarrow> impl_type i = kCore)
   \<and> (impl_type i = kCore \<longrightarrow> Tensor_data s t = Inr (impl_data i))
   \<and> (impl_type i \<noteq> kCore \<longrightarrow> Tensor_data s t = Inl backend_unsupported)"
  using assms by (simp add: Tensor_data_def)

theorem data_only_for_core_witness:
  "Tensor_data [\<lparr>impl_type = kDisk, impl_name = ''B3'', impl_dims = [1, 2],
                 impl_data = [pzero, pzero]\<rparr>,
                \<lparr>impl_type = kCore, impl_name = ''A3'', impl_dims = [1, 2],
                 impl_data = [one, pzero]\<rparr>] \<lparr>tensor_ptr = Some 0\<rparr>
     = Inl backend_unsupported"
  using data_only_for_core [of
      "[\<lparr>impl_type = kDisk, impl_name = ''B3'', impl_dims = [1, 2],
                 impl_data = [pzero, pzero]\<rparr>,
                \<lparr>impl_type = kCore, impl_name = ''A3'', impl_dims = [1, 2],
                 impl_data = [one, pzero]\<rparr>]" "\<lparr>tensor_ptr = Some 0\<rparr>"
      "\<lparr>impl_type = kDisk, impl_name = ''B3'', impl_dims = [1, 2],
                 impl_data = [pzero, pzero]\<rparr>"]
  by (simp add: impl_of_def)

text \<open>
  Claim C6. Two handles are equal if and only if they share the same storage object, and
  \<open>!=\<close> is the negation; two tensors built one after the other with the same kind,
  name and shape, and so with the same elements, are unequal.
\<close>

theorem equality_is_shared_storage:
  "(Tensor_eq a b \<longleftrightarrow> tensor_ptr a = tensor_ptr b)
   \<and> (Tensor_neq a b \<longleftrightarrow> \<not> Tensor_eq a b)
   \<and> (let (x, s1) = build s ty name dims; (y, s2) = build s1 ty name dims
      in \<not> Tensor_eq x y \<and> Tensor_neq x y
         \<and> impl_of s2 x
             = Some \<lparr>impl_type = ty, impl_name = name, impl_dims = dims,
                     impl_data = replicate (prod_list dims) pzero\<rparr>
         \<and> impl_of s2 y = impl_of s2 x)"
  by (simp add: Tensor_eq_def Tensor_neq_def build_def impl_of_def nth_append)

section \<open>The primitive kernels\<close>

lemma multi_indices_2_2: "multi_indices [2, 2] = [[0, 0], [0, 1], [1, 0], [1, 1]]"
  by (simp add: upt_rec)

lemma multi_indices_2: "multi_indices [2] = [[0], [1]]"
  by (simp add: upt_rec)

lemma c1_check:
  "contract_check (matrix_storage cs) \<lparr>tensor_ptr = Some 2\<rparr> \<lparr>tensor_ptr = Some 0\<rparr>
     \<lparr>tensor_ptr = Some 1\<rparr> [''i'', ''j''] [''i'', ''k''] [''k'', ''j''] = None"
  by (simp add: contract_check_def matrix_storage_def impl_of_def extents_consistent_def)

lemma upt_0_1: "[0..<1] = [0]"
  by (simp add: upt_rec)

lemma upt_0_2: "[0..<2] = [0, Suc 0]"
  by (simp add: upt_rec)

lemmas kernel_eval = contract_element_def contract_data_def permute_data_def summed_labels_def
  label_value_def combine_def is_zero_def upt_0_1 upt_0_2

lemma c1_data:
  "contract_data [2, 2] [c0, c1, c2, c3] [2, 2] (map double_of_int [1, 2, 3, 4])
     [2, 2] (map double_of_int [5, 6, 7, 8]) [''i'', ''j''] [''i'', ''k''] [''k'', ''j''] one pzero
   = map double_of_int [19, 22, 43, 50]"
  by (simp add: kernel_eval double_eval)


lemmas storage_eval = impl_of_def set_data_def run_kernel_def extents_consistent_def

lemma matrix_contract:
  "Tensor_contract (matrix_storage [c0, c1, c2, c3]) \<lparr>tensor_ptr = Some 2\<rparr>
      \<lparr>tensor_ptr = Some 0\<rparr> \<lparr>tensor_ptr = Some 1\<rparr>
      [''i'', ''j''] [''i'', ''k''] [''k'', ''j''] one pzero
     = Inr (matrix_storage (map double_of_int [19, 22, 43, 50]))"
  unfolding Tensor_contract_def c1_check
  by (simp add: matrix_storage_def storage_eval c1_data [unfolded list.map])

text \<open>
  Claim C1. With \<open>A = [[1,2],[3,4]]\<close> and \<open>B = [[5,6],[7,8]]\<close>, the contraction with
  \<open>Cinds = ij\<close>, \<open>Ainds = ik\<close>, \<open>Binds = kj\<close>, \<open>alpha = 1\<close>, \<open>beta = 0\<close>, and the
  assignment \<open>C("ij") = A("ik") * B("kj")\<close>, write \<open>[[19,22],[43,50]]\<close> into \<open>C\<close>,
  whatever \<open>C\<close> held before.
\<close>

theorem matrix_multiply_scenario:
  "Tensor_contract (matrix_storage [c0, c1, c2, c3]) \<lparr>tensor_ptr = Some 2\<rparr>
      \<lparr>tensor_ptr = Some 0\<rparr> \<lparr>tensor_ptr = Some 1\<rparr>
      [''i'', ''j''] [''i'', ''k''] [''k'', ''j''] one pzero
     = Inr (matrix_storage (map double_of_int [19, 22, 43, 50]))
   \<and> assign pl (matrix_storage [c0, c1, c2, c3]) op_assign
        (Tensor_label \<lparr>tensor_ptr = Some 2\<rparr> ''ij'')
        (Product (LabeledTensor_times (Tensor_label \<lparr>tensor_ptr = Some 0\<rparr> ''ik'')
                    (Tensor_label \<lparr>tensor_ptr = Some 1\<rparr> ''kj'')))
     = (None, matrix_storage (map double_of_int [19, 22, 43, 50]))"
proof -
  have f: "dmul one one = one"
    by (simp add: double_eval)
  show ?thesis
    using matrix_contract [of c0 c1 c2 c3]
    by (simp add: assign_LabeledTensorProduct_def validate_LabeledTensorProduct_def
        validate_pair_def contract_into_def LabeledTensor_times_def
        LabeledTensorProduct_ctor_def Tensor_label_def LabeledTensor_ctor_def c1_check
        op_alpha_def op_beta_def f run_kernel_def del: One_nat_def)
qed

theorem matrix_multiply_scenario_witness:
  "Tensor_contract (matrix_storage [DNaN, DNaN, DNaN, DNaN]) \<lparr>tensor_ptr = Some 2\<rparr>
      \<lparr>tensor_ptr = Some 0\<rparr> \<lparr>tensor_ptr = Some 1\<rparr>
      [''i'', ''j''] [''i'', ''k''] [''k'', ''j''] one pzero
     = Inr (matrix_storage (map double_of_int [19, 22, 43, 50]))"
  using matrix_multiply_scenario [of DNaN DNaN DNaN DNaN "\<lambda>sh outer. Leaf 0"]
  by simp

text \<open>
  The contraction above rounds each product and each partial sum. Evaluated that way,
  \<open>A = [[2^1023, 2^1023]]\<close>, \<open>B = [[2], [-2]]\<close>, \<open>alpha = 1\<close> and \<open>beta = 0\<close> give two
  products that overflow to \<open>+\<infinity>\<close> and \<open>-\<infinity>\<close>, whose sum is a NaN. A kernel that
  accumulates differently need not: the spec leaves the order and the rounding of the
  accumulation to the dense kernel it dispatches to.
\<close>

lemma finite_inputs_give_nan:
  "list_all is_finite (impl_data (overflow_storage ! 0))
   \<and> list_all is_finite (impl_data (overflow_storage ! 1))
   \<and> is_finite one \<and> is_zero pzero
   \<and> Tensor_contract overflow_storage \<lparr>tensor_ptr = Some 2\<rparr>
        \<lparr>tensor_ptr = Some 0\<rparr> \<lparr>tensor_ptr = Some 1\<rparr>
        [''i'', ''j''] [''i'', ''k''] [''k'', ''j''] one pzero
      = Inr (overflow_storage[2 := (overflow_storage ! 2)\<lparr>impl_data := [DNaN]\<rparr>])
   \<and> list_ex is_nan [DNaN]"
  by (simp add: overflow_storage_def Tensor_contract_def contract_check_def storage_eval
      kernel_eval double_eval is_finite_def is_nan_def)

lemma impl_of_set_data:
  "impl_of (set_data s t d) u =
     (if tensor_ptr u = tensor_ptr t then map_option (\<lambda>i. i\<lparr>impl_data := d\<rparr>) (impl_of s u)
      else impl_of s u)"
  by (auto simp add: impl_of_def set_data_def split: option.splits)

lemma set_data_set_data: "set_data (set_data s t d) t d' = set_data s t d'"
  by (auto simp add: set_data_def split: option.splits)

lemma combine_zero_beta: "is_zero beta \<Longrightarrow> combine alpha x beta c = dadd (dmul alpha x) pzero"
  by (simp add: combine_def)

lemma map_zip_ignore:
  "length ys = length zs \<Longrightarrow> map (\<lambda>(x, y). f x) (zip xs ys) = map (\<lambda>(x, y). f x) (zip xs zs)"
proof (induction xs arbitrary: ys zs)
  case Nil
  then show ?case by simp
next
  case (Cons x xs)
  then show ?case by (cases ys; cases zs) auto
qed

lemma contract_data_zero_beta:
  assumes "is_zero beta" and "length cdata = length cdata'"
  shows "contract_data cdims cdata adims adata bdims bdata Cinds Ainds Binds alpha beta
       = contract_data cdims cdata' adims adata bdims bdata Cinds Ainds Binds alpha beta"
  using assms by (simp add: contract_data_def combine_zero_beta map_zip_ignore [of cdata cdata'])

lemma permute_data_zero_beta:
  assumes "is_zero beta" and "length cdata = length cdata'"
  shows "permute_data cdims cdata adims adata Cinds Ainds alpha beta
       = permute_data cdims cdata' adims adata Cinds Ainds alpha beta"
  using assms by (simp add: permute_data_def combine_zero_beta map_zip_ignore [of cdata cdata'])

lemma contract_check_set_data:
  "contract_check (set_data s t d) c a b Cinds Ainds Binds = contract_check s c a b Cinds Ainds Binds"
  by (simp add: contract_check_def impl_of_set_data split: option.splits)

lemma permute_check_set_data:
  "permute_check (set_data s t d) c a Cinds Ainds = permute_check s c a Cinds Ainds"
  by (simp add: permute_check_def impl_of_set_data split: option.splits)

text \<open>
  With \<open>beta == 0\<close> the kernels do not read the target: for a target that is neither of
  the inputs, \<open>contract\<close> and \<open>permute\<close> give the same outcome whatever the elements of
  the target were before the call.
\<close>

lemma zero_beta_overwrites:
  assumes "is_zero beta"
    and "impl_of s c = Some ci" and "length d = length (impl_data ci)"
    and "tensor_ptr a \<noteq> tensor_ptr c" and "tensor_ptr b \<noteq> tensor_ptr c"
  shows "Tensor_contract (set_data s c d) c a b Cinds Ainds Binds alpha beta
           = Tensor_contract s c a b Cinds Ainds Binds alpha beta
       \<and> Tensor_permute (set_data s c d) c a Cinds Ainds' alpha beta
           = Tensor_permute s c a Cinds Ainds' alpha beta"
proof -
  have c: "impl_of (set_data s c d) c = Some (ci\<lparr>impl_data := d\<rparr>)"
    using assms(2) by (simp add: impl_of_set_data)
  have a: "impl_of (set_data s c d) a = impl_of s a" "impl_of (set_data s c d) b = impl_of s b"
    using assms(4,5) by (simp_all add: impl_of_set_data)
  have "Tensor_contract (set_data s c d) c a b Cinds Ainds Binds alpha beta
           = Tensor_contract s c a b Cinds Ainds Binds alpha beta"
    using assms(1,2,3)
    by (auto simp add: Tensor_contract_def contract_check_set_data c a set_data_set_data
        contract_data_zero_beta [of beta d "impl_data ci"] split: option.splits)
  moreover have "Tensor_permute (set_data s c d) c a Cinds Ainds' alpha beta
           = Tensor_permute s c a Cinds Ainds' alpha beta"
    using assms(1,2,3)
    by (auto simp add: Tensor_permute_def permute_check_set_data c a set_data_set_data
        permute_data_zero_beta [of beta d "impl_data ci"] split: option.splits)
  ultimately show ?thesis by simp
qed

section \<open>Assignments\<close>





































































end
